theory Spec2Isabelle
  imports Complex_Main "HOL-Library.Word"
begin

section \<open>Deduplicating managers (datamanager.py)\<close>

subsection \<open>DataManager\<close>

text \<open>
  \<^verbatim>\<open>DataManager\<close> holds one attribute, the list \<^verbatim>\<open>_list\<close>. The three managers derive
  from it and add attributes of their own, so the class is a record and the subclasses
  are extensions of it; \<^verbatim>\<open>_index\<close> is written once, on the record scheme.
\<close>

record 'a DataManager =
  dm_list :: "'a list"

definition DataManager_init :: "'a DataManager" where
  "DataManager_init = \<lparr>dm_list = []\<rparr>"

definition count :: "('a, 'b) DataManager_scheme \<Rightarrow> nat" where
  "count self = length (dm_list self)"

text \<open>
  Python's \<^verbatim>\<open>list.index(x)\<close>: the position of the first element equal to \<^verbatim>\<open>x\<close>;
  it raises ValueError when there is none.
\<close>

datatype py_error =
    ValueError | ZeroDivisionError | TypeError | OverflowError | MemoryError | OSError
  | UnicodeEncodeError | UnicodeDecodeError

fun py_list_index :: "'a list \<Rightarrow> 'a \<Rightarrow> py_error + nat" where
  "py_list_index [] d = Inl ValueError"
| "py_list_index (x # xs) d =
     (if x = d then Inr 0
      else (case py_list_index xs d of Inl e \<Rightarrow> Inl e | Inr i \<Rightarrow> Inr (Suc i)))"

text \<open>
  \<^verbatim>\<open>_index(data)\<close> returns the index and mutates \<^verbatim>\<open>self._list\<close>; the model returns
  the index together with the manager after the call.
\<close>

definition DataManager_index ::
  "('a, 'b) DataManager_scheme \<Rightarrow> 'a \<Rightarrow> py_error + (nat \<times> ('a, 'b) DataManager_scheme)" where
  "DataManager_index self data =
     (if data \<in> set (dm_list self)
      then (case py_list_index (dm_list self) data of
              Inl e \<Rightarrow> Inl e
            | Inr i \<Rightarrow> Inr (i, self))
      else (let index = length (dm_list self)
            in Inr (index, self\<lparr>dm_list := dm_list self @ [data]\<rparr>)))"

text \<open>A run of \<^verbatim>\<open>_index\<close> calls, one after the other, on the same manager.\<close>

fun index_calls ::
  "('a, 'b) DataManager_scheme \<Rightarrow> 'a list \<Rightarrow> py_error + ('a, 'b) DataManager_scheme" where
  "index_calls self [] = Inr self"
| "index_calls self (d # ds) =
     (case DataManager_index self d of
        Inl e \<Rightarrow> Inl e
      | Inr (i, self') \<Rightarrow> index_calls self' ds)"


section \<open>Coordinate transform and DEM providers (qgis2threejscore.py)\<close>

subsection \<open>Numbers\<close>

text \<open>
  Python's unbounded \<^verbatim>\<open>int\<close> is \<^typ>\<open>int\<close>. A finite Python \<^verbatim>\<open>float\<close> is a double, read
  here as the \<^typ>\<open>real\<close> number it stands for. The result of a float operation is the
  exact result rounded to a double; the rounding is the function \<open>fl\<close> of the record
  below, and \<open>pow_half x\<close> is the double that \<^verbatim>\<open>x ** 0.5\<close> returns for a double
  \<open>x\<close> that is not negative (the C library computes it, and the sources of that library
  are not part of this repository). The functions of this section take the arithmetic as
  their first argument.
\<close>

record float_arith =
  fl :: "real \<Rightarrow> real"
  pow_half :: "real \<Rightarrow> real"

text \<open>
  What the theorems below use of the double arithmetic: rounding is monotone; integers
  up to \<open>2\<^sup>5\<^sup>3\<close> are doubles; the relative error of rounding is at most \<open>2\<^sup>-\<^sup>5\<^sup>3\<close> in
  the range of the normal doubles; the sum \<^verbatim>\<open>(q + 0.1) + 0.9\<close> with both operands and the
  sum rounded is not below \<open>q + 1\<close> (in binary, \<^verbatim>\<open>0.9\<close> is rounded upwards, and the sum
  lies nearer to \<open>q + 1\<close> than to the double below it); the power \<^verbatim>\<open>x ** 0.5\<close> is not
  negative, and it is at least 1 for \<open>x\<close> at least 1.
\<close>

definition rounding :: "float_arith \<Rightarrow> bool" where
  "rounding fa \<longleftrightarrow>
     (\<forall>x y. x \<le> y \<longrightarrow> fl fa x \<le> fl fa y)
   \<and> (\<forall>n::int. \<bar>n\<bar> \<le> 2 ^ 53 \<longrightarrow> fl fa (real_of_int n) = real_of_int n)
   \<and> (\<forall>x. 1 / 2 ^ 1022 \<le> \<bar>x\<bar> \<and> \<bar>x\<bar> \<le> 2 ^ 53 \<longrightarrow> \<bar>fl fa x - x\<bar> \<le> \<bar>x\<bar> / 2 ^ 53)
   \<and> (\<forall>q::int. 0 \<le> q \<and> q < 2 ^ 31 \<longrightarrow>
          real_of_int q + 1 \<le> fl fa (fl fa (real_of_int q + 1 / 10) + fl fa (9 / 10)))
   \<and> (\<forall>x. 0 \<le> x \<longrightarrow> 0 \<le> pow_half fa x)
   \<and> (\<forall>x. 1 \<le> x \<longrightarrow> 1 \<le> pow_half fa x)"

text \<open>
  The arithmetic in which no operation rounds. It gives the results of the double
  arithmetic wherever the operands and the exact results are doubles themselves, as in
  the evaluations on concrete inputs below.
\<close>

definition exact_arith :: float_arith where
  "exact_arith = \<lparr>fl = (\<lambda>x. x), pow_half = sqrt\<rparr>"

text \<open>
  A result whose rounded magnitude would exceed the largest double, that is an exact
  result of magnitude \<open>2\<^sup>1\<^sup>0\<^sup>2\<^sup>4 - 2\<^sup>9\<^sup>7\<^sup>0\<close> or more, overflows.
\<close>

definition float_overflow :: real where
  "float_overflow = 2 ^ 1024 - 2 ^ 970"

text \<open>\<^verbatim>\<open>int(x)\<close> of a finite float truncates towards zero.\<close>

definition py_int :: "real \<Rightarrow> int" where
  "py_int x = (if x < 0 then \<lceil>x\<rceil> else \<lfloor>x\<rfloor>)"

text \<open>
  A float that may also be an infinity or NaN. Operations on floats never raise, with
  one exception: a division by zero raises ZeroDivisionError, whatever the dividend. An
  overflow gives an infinity. The sign of a zero is not represented.
\<close>

datatype py_float = Finite real | PosInf | NegInf | NaN

definition to_float :: "float_arith \<Rightarrow> real \<Rightarrow> py_float" where
  "to_float fa x =
     (if float_overflow \<le> x then PosInf
      else if x \<le> - float_overflow then NegInf
      else Finite (fl fa x))"

fun float_mul :: "float_arith \<Rightarrow> py_float \<Rightarrow> py_float \<Rightarrow> py_float" where
  "float_mul fa (Finite x) (Finite y) = to_float fa (x * y)"
| "float_mul fa (Finite x) PosInf = (if x = 0 then NaN else if 0 < x then PosInf else NegInf)"
| "float_mul fa (Finite x) NegInf = (if x = 0 then NaN else if 0 < x then NegInf else PosInf)"
| "float_mul fa PosInf (Finite y) = (if y = 0 then NaN else if 0 < y then PosInf else NegInf)"
| "float_mul fa NegInf (Finite y) = (if y = 0 then NaN else if 0 < y then NegInf else PosInf)"
| "float_mul fa PosInf PosInf = PosInf"
| "float_mul fa PosInf NegInf = NegInf"
| "float_mul fa NegInf PosInf = NegInf"
| "float_mul fa NegInf NegInf = PosInf"
| "float_mul fa a b = NaN"

fun float_div :: "float_arith \<Rightarrow> py_float \<Rightarrow> py_float \<Rightarrow> py_error + py_float" where
  "float_div fa a (Finite y) =
     (if y = 0 then Inl ZeroDivisionError
      else (case a of
              Finite x \<Rightarrow> Inr (to_float fa (x / y))
            | PosInf \<Rightarrow> Inr (if 0 < y then PosInf else NegInf)
            | NegInf \<Rightarrow> Inr (if 0 < y then NegInf else PosInf)
            | NaN \<Rightarrow> Inr NaN))"
| "float_div fa (Finite x) PosInf = Inr (Finite 0)"
| "float_div fa (Finite x) NegInf = Inr (Finite 0)"
| "float_div fa a b = Inr NaN"

fun float_add :: "float_arith \<Rightarrow> py_float \<Rightarrow> py_float \<Rightarrow> py_float" where
  "float_add fa (Finite x) (Finite y) = to_float fa (x + y)"
| "float_add fa (Finite x) PosInf = PosInf"
| "float_add fa (Finite x) NegInf = NegInf"
| "float_add fa PosInf (Finite y) = PosInf"
| "float_add fa NegInf (Finite y) = NegInf"
| "float_add fa PosInf PosInf = PosInf"
| "float_add fa NegInf NegInf = NegInf"
| "float_add fa a b = NaN"

fun float_sub :: "float_arith \<Rightarrow> py_float \<Rightarrow> py_float \<Rightarrow> py_float" where
  "float_sub fa (Finite x) (Finite y) = to_float fa (x - y)"
| "float_sub fa (Finite x) PosInf = NegInf"
| "float_sub fa (Finite x) NegInf = PosInf"
| "float_sub fa PosInf (Finite y) = PosInf"
| "float_sub fa NegInf (Finite y) = NegInf"
| "float_sub fa PosInf NegInf = PosInf"
| "float_sub fa NegInf PosInf = NegInf"
| "float_sub fa a b = NaN"

definition is_finite :: "py_float \<Rightarrow> bool" where
  "is_finite a = (case a of Finite x \<Rightarrow> True | _ \<Rightarrow> False)"

subsection \<open>QSize and Point\<close>

text \<open>
  PyQt5's \<^verbatim>\<open>QSize\<close> holds two C ints of 32 bits. The constructor raises OverflowError
  for an argument outside \<open>-2\<^sup>3\<^sup>1 .. 2\<^sup>3\<^sup>1 - 1\<close>; \<^verbatim>\<open>width()\<close> and \<^verbatim>\<open>height()\<close> return
  Python ints.
\<close>

datatype QSize = QSize (wd: "32 word") (ht: "32 word")

definition width :: "QSize \<Rightarrow> int" where
  "width s = sint (wd s)"

definition height :: "QSize \<Rightarrow> int" where
  "height s = sint (ht s)"

definition QSize_init :: "int \<Rightarrow> int \<Rightarrow> py_error + QSize" where
  "QSize_init w h =
     (if - (2 ^ 31) \<le> w \<and> w < 2 ^ 31 \<and> - (2 ^ 31) \<le> h \<and> h < 2 ^ 31
      then Inr (QSize (word_of_int w) (word_of_int h))
      else Inl OverflowError)"

datatype Point = Point (px: py_float) (py: py_float) (pz: py_float)

subsection \<open>calculateDEMSize\<close>

text \<open>
  Lines 119-120 and 121-122 apply one expression to the width and to the height:
  \<^verbatim>\<open>if d % roughening != 0: d = int(d / roughening + 0.9) * roughening\<close>. The division
  of the two ints is rounded, the literal \<^verbatim>\<open>0.9\<close> is the double nearest to 9/10, and the
  sum is rounded. \<^verbatim>\<open>%\<close> takes the sign of the divisor, as \<open>mod\<close> on \<^typ>\<open>int\<close> does.
\<close>

definition roughen :: "float_arith \<Rightarrow> int \<Rightarrow> int \<Rightarrow> int" where
  "roughen fa d roughening =
     (if d mod roughening \<noteq> 0
      then py_int (fl fa (fl fa (real_of_int d / real_of_int roughening) + fl fa (9 / 10)))
             * roughening
      else d)"

text \<open>
  Line 113: \<^verbatim>\<open>size * size / (width * height)\<close> divides two ints. It raises
  ZeroDivisionError when the canvas has a zero dimension and OverflowError when the
  quotient is too large for a float. A negative quotient raised to the power 0.5 is a
  complex number in Python 3, and the comparison \<^verbatim>\<open>s < 1\<close> then raises TypeError. All
  floats of this function are finite. Line 124 builds the \<^verbatim>\<open>QSize\<close>, which raises
  OverflowError for a dimension that does not fit 32 bits.
\<close>

definition calculateDEMSize :: "float_arith \<Rightarrow> QSize \<Rightarrow> int \<Rightarrow> int \<Rightarrow> py_error + QSize" where
  "calculateDEMSize fa canvasSize sizeLevel roughening =
     (let w = width canvasSize; h = height canvasSize;
          size = 100 * sizeLevel
      in if w * h = 0 then Inl ZeroDivisionError
         else if float_overflow \<le> \<bar>real_of_int (size * size) / real_of_int (w * h)\<bar>
           then Inl OverflowError
         else
           (let q = fl fa (real_of_int (size * size) / real_of_int (w * h))
            in if q < 0 then Inl TypeError
               else
                 (let s = pow_half fa q;
                      w1 = (if s < 1 then py_int (fl fa (real_of_int w * s)) else w);
                      h1 = (if s < 1 then py_int (fl fa (real_of_int h * s)) else h);
                      w2 = (if roughening \<noteq> 0 then roughen fa w1 roughening else w1);
                      h2 = (if roughening \<noteq> 0 then roughen fa h1 roughening else h1)
                  in QSize_init (w2 + 1) (h2 + 1))))"

text \<open>
  The rounding the specification describes: the least multiple of \<open>r\<close> that is not
  below \<open>d\<close>.
\<close>

definition round_up_to_multiple :: "int \<Rightarrow> int \<Rightarrow> int" where
  "round_up_to_multiple d r = (if d mod r = 0 then d else d - d mod r + r)"

text \<open>
  What line 120 makes of a dimension \<open>d\<close> for a positive roughening \<open>r\<close>, in integers:
  \<open>d\<close> itself if \<open>d\<close> is a multiple of \<open>r\<close>; the next multiple above \<open>d\<close> if the
  remainder is at least a tenth of \<open>r\<close>; the multiple below \<open>d\<close> if the remainder is less
  than a tenth of \<open>r\<close>.
\<close>

definition roughened :: "int \<Rightarrow> int \<Rightarrow> int" where
  "roughened d r =
     (if d mod r = 0 then d
      else if r \<le> 10 * (d mod r) then round_up_to_multiple d r
      else d - d mod r)"

subsection \<open>Host types\<close>

text \<open>
  The QGIS classes the sources call. \<^verbatim>\<open>QgsMapSettings\<close> is the mutable settings object
  shared by the export; its setters store a value and its getters return what was stored.
\<close>

datatype QgsRectangle =
  QgsRectangle (xMinimum: real) (yMinimum: real) (xMaximum: real) (yMaximum: real)

datatype LayerType = VectorLayer | RasterLayer | PluginLayer

record QgsMapLayer =
  lyr_id :: string
  lyr_type :: LayerType

datatype QColor = QColor nat nat nat nat

definition transparent :: QColor where
  "transparent = QColor 0 0 0 0"

record QgsMapSettings =
  outputSize :: QSize
  extent :: QgsRectangle
  ms_rotation :: real
  layers :: "QgsMapLayer list"
  backgroundColor :: QColor

definition layerIds :: "QgsMapSettings \<Rightarrow> string list" where
  "layerIds settings = map lyr_id (layers settings)"

subsection \<open>RotatedRect\<close>

text \<open>
  The class \<^verbatim>\<open>RotatedRect\<close> (rotatedrect.py) is imported by the sources but is not among
  them. A rectangle is represented by what the accessors return that the sources call,
  \<^verbatim>\<open>width()\<close>, \<^verbatim>\<open>rotation()\<close> and \<^verbatim>\<open>unrotatedRect()\<close>, and by its \<^verbatim>\<open>height()\<close>. The method
  \<^verbatim>\<open>normalizePoint\<close> is a parameter of \<^verbatim>\<open>transform\<close> below.
\<close>

record RotatedRect =
  rr_width :: py_float
  rr_height :: py_float
  rr_rotation :: real
  unrotatedRect :: QgsRectangle

subsection \<open>MapTo3D\<close>

record MapTo3D =
  rotation :: real
  mapExtent :: RotatedRect
  planeWidth :: py_float
  planeHeight :: py_float
  verticalExaggeration :: py_float
  verticalShift :: py_float
  multiplier :: py_float
  multiplierZ :: py_float

text \<open>
  \<^verbatim>\<open>__init__\<close>. The argument \<open>extent_of_settings\<close> is the rectangle that
  \<^verbatim>\<open>RotatedRect.fromMapSettings(mapSettings)\<close> returns (that class method is not among the
  sources). The plane width, the exaggeration and the shift are floats. Line 43 multiplies
  and divides by the ints of the canvas size, line 48 divides by the width of the extent;
  the two divisions raise ZeroDivisionError on a zero divisor, in that order.
\<close>

definition MapTo3D_init ::
  "float_arith \<Rightarrow> QgsMapSettings \<Rightarrow> RotatedRect \<Rightarrow> py_float \<Rightarrow> py_float \<Rightarrow> py_float
     \<Rightarrow> py_error + MapTo3D" where
  "MapTo3D_init fa mapSettings extent_of_settings planeWidth' verticalExaggeration' verticalShift' =
     (let canvas_size = outputSize mapSettings
      in case float_div fa (float_mul fa planeWidth' (Finite (real_of_int (height canvas_size))))
                (Finite (real_of_int (width canvas_size))) of
           Inl e \<Rightarrow> Inl e
         | Inr planeHeight' \<Rightarrow>
             (case float_div fa planeWidth' (rr_width extent_of_settings) of
                Inl e \<Rightarrow> Inl e
              | Inr multiplier' \<Rightarrow>
                  Inr \<lparr>rotation = ms_rotation mapSettings,
                       mapExtent = extent_of_settings,
                       planeWidth = planeWidth',
                       planeHeight = planeHeight',
                       verticalExaggeration = verticalExaggeration',
                       verticalShift = verticalShift',
                       multiplier = multiplier',
                       multiplierZ = float_mul fa multiplier' verticalExaggeration'\<rparr>))"

text \<open>
  \<^verbatim>\<open>transform\<close>. The first argument stands for \<^verbatim>\<open>RotatedRect.normalizePoint\<close>: it returns
  the normalized point, a pair of floats, or raises.
\<close>

definition transform ::
  "(RotatedRect \<Rightarrow> py_float \<Rightarrow> py_float \<Rightarrow> py_error + (py_float \<times> py_float))
     \<Rightarrow> float_arith \<Rightarrow> MapTo3D \<Rightarrow> py_float \<Rightarrow> py_float \<Rightarrow> py_float \<Rightarrow> py_error + Point" where
  "transform normalizePoint fa self x y z =
     (case normalizePoint (mapExtent self) x y of
        Inl e \<Rightarrow> Inl e
      | Inr n \<Rightarrow>
          Inr (Point (float_mul fa (float_sub fa (fst n) (Finite (1 / 2))) (planeWidth self))
                     (float_mul fa (float_sub fa (snd n) (Finite (1 / 2))) (planeHeight self))
                     (float_mul fa (float_add fa z (verticalShift self)) (multiplierZ self))))"

definition transformPoint ::
  "(RotatedRect \<Rightarrow> py_float \<Rightarrow> py_float \<Rightarrow> py_error + (py_float \<times> py_float))
     \<Rightarrow> float_arith \<Rightarrow> MapTo3D \<Rightarrow> Point \<Rightarrow> py_error + Point" where
  "transformPoint normalizePoint fa self pt =
     transform normalizePoint fa self (px pt) (py pt) (pz pt)"

subsection \<open>FlatDEMProvider\<close>

text \<open>
  \<^verbatim>\<open>xs * n\<close> on a Python list: \<open>n\<close> copies of \<open>xs\<close>, none when \<open>n\<close> is not positive. A
  count that does not fit the index type of 64 bits raises OverflowError, whatever the
  list; a result of more items than the interpreter can allocate raises MemoryError. That
  number of items is the argument \<open>capacity\<close>.
\<close>

definition py_list_mul :: "nat \<Rightarrow> 'a list \<Rightarrow> int \<Rightarrow> py_error + 'a list" where
  "py_list_mul capacity xs n =
     (if n < - (2 ^ 63) \<or> 2 ^ 63 \<le> n then Inl OverflowError
      else if int capacity < int (length xs) * n then Inl MemoryError
      else Inr (concat (replicate (nat n) xs)))"

datatype 'a FlatDEMProvider = FlatDEMProvider (fd_value: 'a)

definition name :: "'a FlatDEMProvider \<Rightarrow> string" where
  "name self = ''Flat Plane''"

text \<open>\<^verbatim>\<open>[self.value] * width * height\<close> multiplies twice, from the left.\<close>

definition read :: "nat \<Rightarrow> 'a FlatDEMProvider \<Rightarrow> int \<Rightarrow> int \<Rightarrow> 'e \<Rightarrow> py_error + 'a list" where
  "read capacity self w h extent' =
     (case py_list_mul capacity [fd_value self] w of
        Inl e \<Rightarrow> Inl e
      | Inr row \<Rightarrow> py_list_mul capacity row h)"

definition readValue :: "'a FlatDEMProvider \<Rightarrow> py_float \<Rightarrow> py_float \<Rightarrow> 'a" where
  "readValue self x y = fd_value self"
section \<open>The managers built on DataManager (datamanager.py)\<close>

subsection \<open>ImageManager\<close>

text \<open>
  An image descriptor is a tuple of a type tag and the parameters of that type; the
  parameters are a path, a flag, or a nested tuple.
\<close>

datatype image_param =
    ImagePath string
  | Transp bool
  | MapImage int int RotatedRect bool
  | LayerImage "string list" int int RotatedRect bool

type_synonym image = "nat \<times> image_param"

definition ImageManager_IMAGE_FILE :: nat where "ImageManager_IMAGE_FILE = 1"
definition ImageManager_CANVAS_IMAGE :: nat where "ImageManager_CANVAS_IMAGE = 2"
definition ImageManager_MAP_IMAGE :: nat where "ImageManager_MAP_IMAGE = 3"
definition ImageManager_LAYER_IMAGE :: nat where "ImageManager_LAYER_IMAGE = 4"

record ExportSettings =
  mapSettings :: QgsMapSettings
  baseExtent :: RotatedRect

record ImageManager = "image DataManager" +
  exportSettings :: ExportSettings

definition ImageManager_init :: "ExportSettings \<Rightarrow> ImageManager" where
  "ImageManager_init exportSettings' = \<lparr>dm_list = [], exportSettings = exportSettings'\<rparr>"

definition imageIndex :: "ImageManager \<Rightarrow> string \<Rightarrow> py_error + (nat \<times> ImageManager)" where
  "imageIndex self path = DataManager_index self (ImageManager_IMAGE_FILE, ImagePath path)"

definition canvasImageIndex :: "ImageManager \<Rightarrow> bool \<Rightarrow> py_error + (nat \<times> ImageManager)" where
  "canvasImageIndex self transp_background =
     DataManager_index self (ImageManager_CANVAS_IMAGE, Transp transp_background)"

definition mapImageIndex ::
  "ImageManager \<Rightarrow> int \<Rightarrow> int \<Rightarrow> RotatedRect \<Rightarrow> bool \<Rightarrow> py_error + (nat \<times> ImageManager)" where
  "mapImageIndex self w h extent' transp_background =
     DataManager_index self (ImageManager_MAP_IMAGE, MapImage w h extent' transp_background)"

definition layerImageIndex ::
  "ImageManager \<Rightarrow> string list \<Rightarrow> int \<Rightarrow> int \<Rightarrow> RotatedRect \<Rightarrow> bool
     \<Rightarrow> py_error + (nat \<times> ImageManager)" where
  "layerImageIndex self layerids w h extent' transp_background =
     DataManager_index self
       (ImageManager_LAYER_IMAGE, LayerImage layerids w h extent' transp_background)"

text \<open>
  \<^verbatim>\<open>renderedImage\<close> works on \<^verbatim>\<open>self.exportSettings.mapSettings\<close>, the settings object the
  whole export shares, so the model returns the image together with the manager holding
  the settings as the call leaves them. Two things the method calls are not among the
  sources and are parameters: \<^verbatim>\<open>tools.getLayersByLayerIds\<close>, and the render job, a function
  of the settings it is created with and of whether it is run by
  \<^verbatim>\<open>renderSynchronously()\<close> or by \<^verbatim>\<open>start()\<close> and \<^verbatim>\<open>waitForFinished()\<close>. The argument
  \<^verbatim>\<open>layerids\<close> is \<^verbatim>\<open>None\<close> or a list; \<^verbatim>\<open>if layerids:\<close> holds for a list that is not empty.
  \<^verbatim>\<open>QSize(width, height)\<close> on line 107 raises OverflowError before any setter is called.
\<close>

definition renderedImage ::
  "(string list \<Rightarrow> QgsMapLayer list) \<Rightarrow> (QgsMapSettings \<Rightarrow> bool \<Rightarrow> 'img)
     \<Rightarrow> ImageManager \<Rightarrow> int \<Rightarrow> int \<Rightarrow> RotatedRect \<Rightarrow> bool \<Rightarrow> string list option
     \<Rightarrow> py_error + ('img \<times> ImageManager)" where
  "renderedImage getLayersByLayerIds render_job self w h extent' transp_background layerids =
     (let settings = mapSettings (exportSettings self);
          old_outputSize = outputSize settings;
          old_extent = extent settings;
          old_rotation = ms_rotation settings;
          old_layerids = layerIds settings;
          old_backgroundColor = backgroundColor settings
      in case QSize_init w h of
           Inl e \<Rightarrow> Inl e
         | Inr new_size \<Rightarrow>
     (let settings = settings\<lparr>outputSize := new_size\<rparr>;
          settings = settings\<lparr>extent := unrotatedRect extent'\<rparr>;
          settings = settings\<lparr>ms_rotation := rr_rotation extent'\<rparr>;
          settings = (case layerids of
                        None \<Rightarrow> settings
                      | Some ids \<Rightarrow> if ids \<noteq> []
                                   then settings\<lparr>layers := getLayersByLayerIds ids\<rparr>
                                   else settings);
          settings = (if transp_background
                      then settings\<lparr>backgroundColor := transparent\<rparr>
                      else settings);
          has_pluginlayer = list_ex (\<lambda>layer. lyr_type layer = PluginLayer) (layers settings);
          image = render_job settings has_pluginlayer;
          settings = settings\<lparr>outputSize := old_outputSize\<rparr>;
          settings = settings\<lparr>extent := old_extent\<rparr>;
          settings = settings\<lparr>ms_rotation := old_rotation\<rparr>;
          settings = settings\<lparr>layers := getLayersByLayerIds old_layerids\<rparr>;
          settings = settings\<lparr>backgroundColor := old_backgroundColor\<rparr>
      in Inr (image, self\<lparr>exportSettings := (exportSettings self)\<lparr>mapSettings := settings\<rparr>\<rparr>)))"

subsection \<open>MaterialManager\<close>

text \<open>
  A material descriptor is the tuple (type, parameters, opacity, doubleSide); the second
  component is a color string, a flag, or a nested tuple. The opacity is a finite number.
\<close>

datatype material_param =
    Color string
  | TranspBackground bool
  | MapImageTexture int int RotatedRect bool
  | LayerImageTexture "string list" int int RotatedRect bool
  | ImageFileTexture string bool

type_synonym material = "nat \<times> material_param \<times> real \<times> bool"

definition MESH_LAMBERT :: nat where "MESH_LAMBERT = 0"
definition MESH_PHONG :: nat where "MESH_PHONG = 1"
definition LINE_BASIC :: nat where "LINE_BASIC = 2"
definition SPRITE :: nat where "SPRITE = 3"
definition WIREFRAME :: nat where "WIREFRAME = 10"
definition MESH_LAMBERT_SMOOTH :: nat where "MESH_LAMBERT_SMOOTH = 0"
definition MESH_LAMBERT_FLAT :: nat where "MESH_LAMBERT_FLAT = 11"
definition CANVAS_IMAGE :: nat where "CANVAS_IMAGE = 20"
definition MAP_IMAGE :: nat where "MAP_IMAGE = 21"
definition LAYER_IMAGE :: nat where "LAYER_IMAGE = 22"
definition IMAGE_FILE :: nat where "IMAGE_FILE = 23"

definition ERROR_COLOR :: string where "ERROR_COLOR = ''0''"

record MaterialManager = "material DataManager" +
  writtenCount :: nat

definition MaterialManager_init :: MaterialManager where
  "MaterialManager_init = \<lparr>dm_list = [], writtenCount = 0\<rparr>"

text \<open>\<^verbatim>\<open>color[0:2]\<close> is the string of the first two characters, shorter if there are fewer.\<close>

definition indexCol ::
  "MaterialManager \<Rightarrow> nat \<Rightarrow> string \<Rightarrow> real \<Rightarrow> bool \<Rightarrow> py_error + (nat \<times> MaterialManager)" where
  "indexCol self type color opacity doubleSide =
     (let color = (if take 2 color \<noteq> ''0x'' then ERROR_COLOR else color);
          mat = (type, Color color, opacity, doubleSide)
      in DataManager_index self mat)"

definition getMeshLambertIndex ::
  "MaterialManager \<Rightarrow> string \<Rightarrow> real \<Rightarrow> bool \<Rightarrow> py_error + (nat \<times> MaterialManager)" where
  "getMeshLambertIndex self color opacity doubleSide =
     indexCol self MESH_LAMBERT color opacity doubleSide"

definition getSmoothMeshLambertIndex ::
  "MaterialManager \<Rightarrow> string \<Rightarrow> real \<Rightarrow> bool \<Rightarrow> py_error + (nat \<times> MaterialManager)" where
  "getSmoothMeshLambertIndex self color opacity doubleSide =
     indexCol self MESH_LAMBERT_SMOOTH color opacity doubleSide"

definition getFlatMeshLambertIndex ::
  "MaterialManager \<Rightarrow> string \<Rightarrow> real \<Rightarrow> bool \<Rightarrow> py_error + (nat \<times> MaterialManager)" where
  "getFlatMeshLambertIndex self color opacity doubleSide =
     indexCol self MESH_LAMBERT_FLAT color opacity doubleSide"

text \<open>The next two methods leave \<^verbatim>\<open>doubleSide\<close> at its default, False.\<close>

definition getLineBasicIndex ::
  "MaterialManager \<Rightarrow> string \<Rightarrow> real \<Rightarrow> py_error + (nat \<times> MaterialManager)" where
  "getLineBasicIndex self color opacity = indexCol self LINE_BASIC color opacity False"

definition getWireframeIndex ::
  "MaterialManager \<Rightarrow> string \<Rightarrow> real \<Rightarrow> py_error + (nat \<times> MaterialManager)" where
  "getWireframeIndex self color opacity = indexCol self WIREFRAME color opacity False"

text \<open>
  The five color-based index methods as functions of the manager, the color, the opacity
  and the double-sided flag; the last two do not take the flag.
\<close>

definition color_index_methods ::
  "(MaterialManager \<Rightarrow> string \<Rightarrow> real \<Rightarrow> bool \<Rightarrow> py_error + (nat \<times> MaterialManager)) list" where
  "color_index_methods =
     [getMeshLambertIndex, getSmoothMeshLambertIndex, getFlatMeshLambertIndex,
      (\<lambda>self color opacity doubleSide. getLineBasicIndex self color opacity),
      (\<lambda>self color opacity doubleSide. getWireframeIndex self color opacity)]"

subsection \<open>ModelManager\<close>

text \<open>A model descriptor is the tuple (model_type, path).\<close>

type_synonym model = "string \<times> string"

record ModelManager = "model DataManager" +
  collada :: bool

definition ModelManager_init :: ModelManager where
  "ModelManager_init = \<lparr>dm_list = [], collada = False\<rparr>"

definition modelIndex ::
  "ModelManager \<Rightarrow> string \<Rightarrow> string \<Rightarrow> py_error + (nat \<times> ModelManager)" where
  "modelIndex self path model_type =
     (let self = (if model_type = ''COLLADA'' then self\<lparr>collada := True\<rparr> else self);
          model = (model_type, path)
      in DataManager_index self model)"

definition scripts :: "ModelManager \<Rightarrow> string list" where
  "scripts self = (if collada self then [''threejs/loaders/ColladaLoader.js''] else [])"

text \<open>
  The file system as \<^verbatim>\<open>write\<close> sees it: a path names nothing, a directory (or anything
  else that is not a regular file), or a regular file. For a regular file the entry holds
  what \<^verbatim>\<open>open(path)\<close> followed by \<^verbatim>\<open>read()\<close> gives: the text of the file, or the exception
  raised for a file that may not be opened (OSError) or whose bytes are not text in the
  preferred encoding of the platform (UnicodeDecodeError).
\<close>

datatype fs_entry = Directory | File "py_error + string"

type_synonym FileSystem = "string \<rightharpoonup> fs_entry"

definition path_exists :: "FileSystem \<Rightarrow> string \<Rightarrow> bool" where
  "path_exists fs path = (fs path \<noteq> None)"

definition path_isfile :: "FileSystem \<Rightarrow> string \<Rightarrow> bool" where
  "path_isfile fs path = (case fs path of Some (File content) \<Rightarrow> True | _ \<Rightarrow> False)"

definition file_read :: "FileSystem \<Rightarrow> string \<Rightarrow> py_error + string" where
  "file_read fs path = (case fs path of Some (File content) \<Rightarrow> content | _ \<Rightarrow> Inl OSError)"

text \<open>\<^verbatim>\<open>s.replace(old, new)\<close> where \<^verbatim>\<open>old\<close> is one character.\<close>

definition py_replace :: "char \<Rightarrow> string \<Rightarrow> string \<Rightarrow> string" where
  "py_replace old new s = concat (map (\<lambda>c. if c = old then new else [c]) s)"

text \<open>The five replacements of line 412, in the order the source applies them.\<close>

definition escape_model_data :: "string \<Rightarrow> string" where
  "escape_model_data data =
     py_replace (CHR 0x0A) [CHR 0x5C, CHR ''n'']
       (py_replace (CHR 0x0D) [CHR 0x5C, CHR ''r'']
         (py_replace (CHR 0x09) [CHR 0x5C, CHR ''t'']
           (py_replace (CHR 0x27) [CHR 0x5C, CHR 0x27]
             (py_replace (CHR 0x5C) [CHR 0x5C, CHR 0x5C] data))))"

text \<open>\<^verbatim>\<open>%d\<close> of an index: its decimal digits.\<close>

fun str_nat :: "nat \<Rightarrow> string" where
  "str_nat n =
     (if n < 10 then [''0123456789'' ! n]
      else str_nat (n div 10) @ [''0123456789'' ! (n mod 10)])"

declare str_nat.simps [simp del]

definition model_line :: "nat \<Rightarrow> string \<Rightarrow> string \<Rightarrow> string" where
  "model_line index model_type data =
     ''project.models['' @ str_nat index @ ''] = {type:'' @ [CHR 0x27] @ model_type
       @ [CHR 0x27] @ '',data:'' @ [CHR 0x27] @ data @ [CHR 0x27] @ ''};'' @ [CHR 0x0A]"

definition model_null_line :: "nat \<Rightarrow> string \<Rightarrow> string" where
  "model_null_line index model_type =
     ''project.models['' @ str_nat index @ ''] = {type:'' @ [CHR 0x27] @ model_type
       @ [CHR 0x27] @ '',data:null};'' @ [CHR 0x0A]"

definition model_log_message :: "string \<Rightarrow> string \<Rightarrow> string \<Rightarrow> string" where
  "model_log_message err_msg path model_type =
     err_msg @ '': '' @ path @ '' ('' @ model_type @ '')''"

text \<open>
  The loop of \<^verbatim>\<open>write\<close> over \<^verbatim>\<open>enumerate(self._list)\<close>. The result is the list of the
  strings passed to \<^verbatim>\<open>f.write\<close>, the list of the messages passed to \<^verbatim>\<open>logMessage\<close>,
  both in call order, and the exception that ended the loop, if one did: the method has
  no handler, so an exception raised while a model file is read leaves the loop with what
  was written before.
\<close>

type_synonym write_result = "string list \<times> string list \<times> py_error option"

fun write_models :: "FileSystem \<Rightarrow> nat \<Rightarrow> model list \<Rightarrow> write_result" where
  "write_models fs index [] = ([], [], None)"
| "write_models fs index (model # rest) =
     (let model_type = fst model; path = snd model;
          exists = path_exists fs path
      in if exists \<and> path_isfile fs path
         then (case file_read fs path of
                 Inl e \<Rightarrow> ([], [], Some e)
               | Inr content \<Rightarrow>
                   (let others = write_models fs (Suc index) rest
                    in (model_line index model_type (escape_model_data content) # fst others,
                        snd others)))
         else (let err_msg = (if exists then ''Not 3D model file path''
                              else ''3D model file not found'');
                   others = write_models fs (Suc index) rest
               in (model_null_line index model_type # fst others,
                   model_log_message err_msg path model_type # fst (snd others),
                   snd (snd others))))"

definition ModelManager_write :: "FileSystem \<Rightarrow> ModelManager \<Rightarrow> write_result" where
  "ModelManager_write fs self =
     (if length (dm_list self) = 0 then ([], [], None)
      else (let body = write_models fs 0 (dm_list self)
            in (([CHR 0x0A] @ ''// 3D model data'' @ [CHR 0x0A]) # fst body, snd body)))"

text \<open>The model lists whose regular files can all be read.\<close>

definition readable :: "FileSystem \<Rightarrow> model list \<Rightarrow> bool" where
  "readable fs models =
     list_all (\<lambda>model. path_isfile fs (snd model) \<longrightarrow> \<not> isl (file_read fs (snd model))) models"

text \<open>What \<^verbatim>\<open>write\<close> passes to \<^verbatim>\<open>f.write\<close> for one entry whose file, if regular, is read.\<close>

definition model_output :: "FileSystem \<Rightarrow> nat \<Rightarrow> model \<Rightarrow> string" where
  "model_output fs index model =
     (if path_exists fs (snd model) \<and> path_isfile fs (snd model)
      then model_line index (fst model) (escape_model_data (projr (file_read fs (snd model))))
      else model_null_line index (fst model))"

section \<open>Settings file of the dialog (qgis2threejsdialog.py)\<close>

text \<open>
  A Python \<^verbatim>\<open>str\<close> is a sequence of Unicode code points, a file a sequence of bytes.
  \<^verbatim>\<open>saveSettings\<close> opens the file with \<^verbatim>\<open>encoding="UTF-8"\<close>; \<^verbatim>\<open>loadSettings\<close> opens it
  with \<^verbatim>\<open>open(filename)\<close>, which decodes with the preferred encoding of the platform.
\<close>

type_synonym py_str = "nat list"
type_synonym py_bytes = "nat list"

datatype codec = UTF_8 | Latin_1

definition utf8_encode_char :: "nat \<Rightarrow> py_error + py_bytes" where
  "utf8_encode_char c =
     (if c < 0x80 then Inr [c]
      else if c < 0x800 then Inr [0xC0 + c div 64, 0x80 + c mod 64]
      else if 0xD800 \<le> c \<and> c < 0xE000 then Inl UnicodeEncodeError
      else if c < 0x10000
        then Inr [0xE0 + c div 4096, 0x80 + c div 64 mod 64, 0x80 + c mod 64]
      else Inr [0xF0 + c div 262144, 0x80 + c div 4096 mod 64,
                0x80 + c div 64 mod 64, 0x80 + c mod 64])"

fun utf8_encode :: "py_str \<Rightarrow> py_error + py_bytes" where
  "utf8_encode [] = Inr []"
| "utf8_encode (c # cs) =
     (case utf8_encode_char c of
        Inl e \<Rightarrow> Inl e
      | Inr bs \<Rightarrow> (case utf8_encode cs of Inl e \<Rightarrow> Inl e | Inr rest \<Rightarrow> Inr (bs @ rest)))"

definition continuation :: "nat \<Rightarrow> bool" where
  "continuation b \<longleftrightarrow> 0x80 \<le> b \<and> b < 0xC0"

definition decoded :: "nat \<Rightarrow> py_error + py_str \<Rightarrow> py_error + py_str" where
  "decoded c rest = (case rest of Inl e \<Rightarrow> Inl e | Inr cs \<Rightarrow> Inr (c # cs))"

text \<open>
  The strict UTF-8 decoder: it rejects stray and missing continuation bytes, overlong
  forms, surrogates and code points above 0x10FFFF.
\<close>

fun utf8_decode :: "py_bytes \<Rightarrow> py_error + py_str" where
  "utf8_decode [] = Inr []"
| "utf8_decode (b # bs) =
     (if b < 0x80 then decoded b (utf8_decode bs)
      else if 0xC2 \<le> b \<and> b < 0xE0 then
        (case bs of
           b1 # rest \<Rightarrow>
             if continuation b1
             then decoded ((b - 0xC0) * 64 + (b1 - 0x80)) (utf8_decode rest)
             else Inl UnicodeDecodeError
         | _ \<Rightarrow> Inl UnicodeDecodeError)
      else if 0xE0 \<le> b \<and> b < 0xF0 then
        (case bs of
           b1 # b2 # rest \<Rightarrow>
             (let c = (b - 0xE0) * 4096 + (b1 - 0x80) * 64 + (b2 - 0x80)
              in if continuation b1 \<and> continuation b2 \<and> 0x800 \<le> c
                    \<and> \<not> (0xD800 \<le> c \<and> c < 0xE000)
                 then decoded c (utf8_decode rest)
                 else Inl UnicodeDecodeError)
         | _ \<Rightarrow> Inl UnicodeDecodeError)
      else if 0xF0 \<le> b \<and> b < 0xF5 then
        (case bs of
           b1 # b2 # b3 # rest \<Rightarrow>
             (let c = (b - 0xF0) * 262144 + (b1 - 0x80) * 4096 + (b2 - 0x80) * 64 + (b3 - 0x80)
              in if continuation b1 \<and> continuation b2 \<and> continuation b3
                    \<and> 0x10000 \<le> c \<and> c < 0x110000
                 then decoded c (utf8_decode rest)
                 else Inl UnicodeDecodeError)
         | _ \<Rightarrow> Inl UnicodeDecodeError)
      else Inl UnicodeDecodeError)"

text \<open>Latin-1 maps every byte to the code point of the same number.\<close>

definition decode :: "codec \<Rightarrow> py_bytes \<Rightarrow> py_error + py_str" where
  "decode preferred bs = (case preferred of UTF_8 \<Rightarrow> utf8_decode bs | Latin_1 \<Rightarrow> Inr bs)"

text \<open>
  \<^verbatim>\<open>json.dump\<close> and \<^verbatim>\<open>json.load\<close> belong to the Python library and are parameters:
  \<open>json_dump\<close> is the text that \<^verbatim>\<open>json.dump(..., ensure_ascii=False, indent=2, sort_keys=True)\<close>
  writes for a settings mapping, \<open>json_load\<close> the mapping \<^verbatim>\<open>json.load\<close> parses from a
  text. \<^verbatim>\<open>saveSettings\<close> returns the bytes of the file it writes for the mapping that
  \<^verbatim>\<open>self.settings(True)\<close> returns; \<^verbatim>\<open>loadSettings\<close> returns the mapping it hands to
  \<^verbatim>\<open>setSettings\<close>, given the platform's preferred encoding and the bytes of the file.
\<close>

definition saveSettings :: "('s \<Rightarrow> py_str) \<Rightarrow> 's \<Rightarrow> py_error + py_bytes" where
  "saveSettings json_dump settings = utf8_encode (json_dump settings)"

definition loadSettings :: "(py_str \<Rightarrow> py_error + 's) \<Rightarrow> codec \<Rightarrow> py_bytes \<Rightarrow> py_error + 's" where
  "loadSettings json_load preferred contents =
     (case decode preferred contents of
        Inl e \<Rightarrow> Inl e
      | Inr t \<Rightarrow> json_load t)"

section \<open>Properties\<close>

subsection \<open>The index of a descriptor\<close>

lemma py_list_index_mem:
  "d \<in> set xs \<Longrightarrow> \<exists>i. py_list_index xs d = Inr i \<and> i < length xs \<and> xs ! i = d"
  by (induction xs) auto

lemma py_list_index_append:
  "d \<in> set xs \<Longrightarrow> py_list_index (xs @ ys) d = py_list_index xs d"
  by (induction xs) auto

lemma py_list_index_snoc:
  "d \<notin> set xs \<Longrightarrow> py_list_index (xs @ [d]) d = Inr (length xs)"
  by (induction xs) auto

lemma DataManager_index_new:
  "d \<notin> set (dm_list self) \<Longrightarrow>
     DataManager_index self d = Inr (count self, self\<lparr>dm_list := dm_list self @ [d]\<rparr>)"
  by (simp add: DataManager_index_def count_def)

lemma DataManager_index_old:
  "d \<in> set (dm_list self) \<Longrightarrow>
     \<exists>i. DataManager_index self d = Inr (i, self) \<and> py_list_index (dm_list self) d = Inr i
        \<and> i < count self \<and> dm_list self ! i = d"
  using py_list_index_mem [of d "dm_list self"]
  by (auto simp: DataManager_index_def count_def)

lemma DataManager_index_total:
  "\<exists>i self'. DataManager_index self d = Inr (i, self') \<and> d \<in> set (dm_list self')
     \<and> py_list_index (dm_list self') d = Inr i
     \<and> (\<exists>ys. dm_list self' = dm_list self @ ys)"
proof (cases "d \<in> set (dm_list self)")
  case True
  then show ?thesis using DataManager_index_old [OF True] by auto
next
  case False
  then show ?thesis
    by (simp add: DataManager_index_new py_list_index_snoc count_def)
qed

lemma index_calls_total:
  "\<exists>self'. index_calls self ds = Inr self' \<and> (\<exists>ys. dm_list self' = dm_list self @ ys)"
proof (induction ds arbitrary: self)
  case Nil
  then show ?case by simp
next
  case (Cons d ds)
  obtain i s1 ys where s1: "DataManager_index self d = Inr (i, s1)"
    and l1: "dm_list s1 = dm_list self @ ys"
    using DataManager_index_total [of self d] by blast
  obtain s2 zs where s2: "index_calls s1 ds = Inr s2" and l2: "dm_list s2 = dm_list s1 @ zs"
    using Cons.IH [of s1] by blast
  show ?case using s1 s2 l1 l2 by simp
qed

text \<open>
  Claim C1. For every manager of the DataManager family, \<^verbatim>\<open>_index\<close> never raises; equal
  descriptors get equal indices; the first call with a descriptor not yet in the list
  appends it, raises the count by exactly one and returns the previous count; and a later
  call with an equal descriptor, after any run of other \<^verbatim>\<open>_index\<close> calls, leaves the
  manager (hence the count) unchanged and returns the index assigned first.
\<close>

theorem DataManager_index_dedup:
  fixes self :: "('a, 'b) DataManager_scheme"
  shows "\<exists>i self1 self2.
           DataManager_index self d1 = Inr (i, self1)
         \<and> (d1 = d2 \<longrightarrow> DataManager_index self d2 = Inr (i, self1))
         \<and> (d1 \<notin> set (dm_list self) \<longrightarrow>
               i = count self \<and> dm_list self1 = dm_list self @ [d1]
             \<and> count self1 = count self + 1)
         \<and> (d1 \<in> set (dm_list self) \<longrightarrow> self1 = self \<and> i < count self)
         \<and> dm_list self1 ! i = d1
         \<and> index_calls self1 ds = Inr self2
         \<and> DataManager_index self2 d1 = Inr (i, self2)"
proof -
  obtain i self1 ys where a: "DataManager_index self d1 = Inr (i, self1)"
    and mem: "d1 \<in> set (dm_list self1)"
    and idx: "py_list_index (dm_list self1) d1 = Inr i"
    and "dm_list self1 = dm_list self @ ys"
    using DataManager_index_total [of self d1] by blast
  obtain self2 zs where b: "index_calls self1 ds = Inr self2"
    and l2: "dm_list self2 = dm_list self1 @ zs"
    using index_calls_total [of self1 ds] by blast
  have c: "DataManager_index self2 d1 = Inr (i, self2)"
    using mem idx l2 py_list_index_append [OF mem, of zs]
    by (simp add: DataManager_index_def)
  have new: "d1 \<notin> set (dm_list self) \<longrightarrow>
      i = count self \<and> dm_list self1 = dm_list self @ [d1] \<and> count self1 = count self + 1"
    using a by (auto simp: DataManager_index_new count_def)
  have old: "d1 \<in> set (dm_list self) \<longrightarrow> self1 = self \<and> i < count self"
    using a DataManager_index_old [of d1 self] by auto
  have nth: "dm_list self1 ! i = d1"
    using py_list_index_mem [OF mem] idx by auto
  show ?thesis using a b c new old nth by auto
qed

theorem DataManager_index_dedup_witness:
  "\<exists>i self1 self2.
       DataManager_index \<lparr>dm_list = [''a'', ''b'']\<rparr> ''c'' = Inr (i, self1)
     \<and> i = 2 \<and> dm_list self1 = [''a'', ''b'', ''c''] \<and> count self1 = 3
     \<and> index_calls self1 [''d'', ''a''] = Inr self2
     \<and> DataManager_index self2 ''c'' = Inr (2, self2)"
  using DataManager_index_dedup [of "\<lparr>dm_list = [''a'', ''b'']\<rparr>" "''c''" "''c''" "[''d'', ''a'']"]
  by (auto simp: count_def)

subsection \<open>The size of the DEM grid\<close>

lemma rounding_mono: "rounding fa \<Longrightarrow> x \<le> y \<Longrightarrow> fl fa x \<le> fl fa y"
  unfolding rounding_def by blast

lemma rounding_int: "rounding fa \<Longrightarrow> \<bar>n\<bar> \<le> 2 ^ 53 \<Longrightarrow> fl fa (real_of_int n) = real_of_int n"
  unfolding rounding_def by blast

lemma rounding_err:
  "rounding fa \<Longrightarrow> 1 / 2 ^ 1022 \<le> \<bar>x\<bar> \<Longrightarrow> \<bar>x\<bar> \<le> 2 ^ 53 \<Longrightarrow> \<bar>fl fa x - x\<bar> \<le> \<bar>x\<bar> / 2 ^ 53"
  unfolding rounding_def by blast

lemma rounding_sum:
  "rounding fa \<Longrightarrow> 0 \<le> q \<Longrightarrow> q < 2 ^ 31 \<Longrightarrow>
     real_of_int q + 1 \<le> fl fa (fl fa (real_of_int q + 1 / 10) + fl fa (9 / 10))"
  unfolding rounding_def by blast

lemma rounding_pow_half:
  "rounding fa \<Longrightarrow> 0 \<le> x \<Longrightarrow> 0 \<le> pow_half fa x"
  "rounding fa \<Longrightarrow> 1 \<le> x \<Longrightarrow> 1 \<le> pow_half fa x"
  unfolding rounding_def by blast+

lemma rounding_exact_arith: "rounding exact_arith"
  by (simp add: rounding_def exact_arith_def)

lemma tiny: "1 / 2 ^ 1022 \<le> (1 / 16 :: real)"
proof -
  have "(2::real) ^ 4 \<le> 2 ^ 1022" by (rule power_increasing) simp_all
  then show ?thesis by (simp add: field_simps)
qed

lemma rounding_upper:
  assumes fa: "rounding fa" and lo: "1 / 16 \<le> x" and hi: "x \<le> 2 ^ 53"
  shows "fl fa x \<le> x * (1 + 1 / 2 ^ 53)"
proof -
  have x0: "0 \<le> x" using lo by linarith
  have "1 / 2 ^ 1022 \<le> \<bar>x\<bar>" using tiny lo by linarith
  moreover have "\<bar>x\<bar> \<le> 2 ^ 53" using hi x0 by simp
  ultimately have "\<bar>fl fa x - x\<bar> \<le> \<bar>x\<bar> / 2 ^ 53" by (rule rounding_err [OF fa])
  then have "fl fa x \<le> x + x / 2 ^ 53" using x0 by linarith
  then show ?thesis by (simp add: algebra_simps)
qed

lemma fl_zero: "rounding fa \<Longrightarrow> fl fa 0 = 0"
  using rounding_int [of fa 0] by simp

lemma fl_one: "rounding fa \<Longrightarrow> fl fa 1 = 1"
  using rounding_int [of fa 1] by simp

lemma down_bound:
  fixes e K Q C :: real
  assumes e: "0 < e" "e \<le> 1" and K: "0 < K" and Q: "0 < Q"
    and small: "30 * e * (Q * K) < 1" and C: "C = Q - 1 / (10 * K)" and C0: "0 \<le> C"
  shows "C * (1 + e) * (1 + e) < Q"
proof -
  have "e * e \<le> e * 1" using e by (intro mult_left_mono) simp_all
  then have sq: "(1 + e) * (1 + e) \<le> 1 + 3 * e" by (simp add: algebra_simps)
  have CQ: "C \<le> Q" using C K by simp
  have "C * ((1 + e) * (1 + e)) \<le> C * (1 + 3 * e)" using sq C0 by (rule mult_left_mono)
  also have "\<dots> = C + 3 * e * C" by (simp add: algebra_simps)
  also have "\<dots> \<le> C + 3 * e * Q" using CQ e by simp
  finally have a: "C * (1 + e) * (1 + e) \<le> C + 3 * e * Q" by (simp add: mult.assoc)
  have "3 * e * Q * (10 * K) < 1" using small by (simp add: algebra_simps)
  then have "3 * e * Q < 1 / (10 * K)" using K by (simp add: field_simps)
  then show ?thesis using a C by linarith
qed

lemma div_mod_real:
  assumes "0 < (r::int)"
  shows "real_of_int d / real_of_int r = real_of_int (d div r) + real_of_int (d mod r) / real_of_int r"
proof -
  have "real_of_int d = real_of_int (d div r) * real_of_int r + real_of_int (d mod r)"
    by (metis mult.commute of_int_add of_int_mult mult_div_mod_eq)
  then show ?thesis using assms by (simp add: field_simps)
qed

lemma quotient_bound:
  assumes r: "0 < (r::int)" and d: "0 \<le> d" and d31: "d < 2 ^ 31" and m: "10 * (d mod r) < r"
  shows "(d div r + 1) * (10 * (d mod r) + 1) \<le> 2 ^ 35"
proof (cases "d div r = 0")
  case True
  have "d mod r \<le> d" using d r by (simp add: zmod_le_nonneg_dividend)
  then show ?thesis using True d31 by simp
next
  case False
  have q0: "0 \<le> d div r" using r d by (simp add: pos_imp_zdiv_nonneg_iff)
  then have q1: "1 \<le> d div r" using False by linarith
  have m0: "0 \<le> d mod r" using r by simp
  have dq: "d div r * r + d mod r = d" by (rule div_mult_mod_eq)
  have "1 * r \<le> d div r * r" using q1 r by (intro mult_right_mono) simp_all
  then have rd: "r \<le> d" using dq m0 by linarith
  have "(d div r + 1) * (10 * (d mod r) + 1) \<le> (d div r + 1) * r"
    using m q0 by (intro mult_left_mono) simp_all
  also have "\<dots> = d div r * r + r" by (simp add: algebra_simps)
  also have "\<dots> \<le> d + r" using dq m0 by linarith
  also have "\<dots> \<le> 2 ^ 35" using rd d31 by simp
  finally show ?thesis .
qed

lemma py_int_nonneg: "0 \<le> x \<Longrightarrow> py_int x = \<lfloor>x\<rfloor>"
  by (simp add: py_int_def)

lemma eps_bounds: "(0::real) < 1 / 2 ^ 53" "(1::real) / 2 ^ 53 \<le> 1"
  by simp_all

lemma nine_tenths:
  assumes fa: "rounding fa"
  shows "0 \<le> fl fa (9 / 10)" and "fl fa (9 / 10) \<le> 9 / 10 * (1 + 1 / 2 ^ 53)"
proof -
  have "fl fa 0 \<le> fl fa (9 / 10)" by (rule rounding_mono [OF fa]) simp
  then show "0 \<le> fl fa (9 / 10)" by (simp add: fl_zero [OF fa])
  show "fl fa (9 / 10) \<le> 9 / 10 * (1 + 1 / 2 ^ 53)"
    by (rule rounding_upper [OF fa]) simp_all
qed

lemma roughen_floor_up:
  assumes fa: "rounding fa" and r: "0 < r" and d: "0 \<le> d" and d31: "d < 2 ^ 31"
    and up: "r \<le> 10 * (d mod r)"
  shows "\<lfloor>fl fa (fl fa (real_of_int d / real_of_int r) + fl fa (9 / 10))\<rfloor> = d div r + 1"
proof -
  let ?q = "d div r" and ?m = "d mod r"
  let ?a = "fl fa (real_of_int d / real_of_int r)" and ?b = "fl fa (9 / 10)"
  have m: "0 \<le> ?m" "?m < r" using r by simp_all
  have q0: "0 \<le> ?q" using r d by (simp add: pos_imp_zdiv_nonneg_iff)
  have qd: "?q \<le> d" using zdiv_mono2 [of d 1 r] r d by simp
  have q31: "?q < 2 ^ 31" using qd d31 by linarith
  have dq: "real_of_int d / real_of_int r = real_of_int ?q + real_of_int ?m / real_of_int r"
    by (rule div_mod_real [OF r])
  have "real_of_int r \<le> 10 * real_of_int ?m" using up by linarith
  then have frac_lo: "1 / 10 \<le> real_of_int ?m / real_of_int r" using r by (simp add: field_simps)
  have mr: "?m \<le> r" using m(2) by (rule less_imp_le)
  have frac_hi: "real_of_int ?m / real_of_int r \<le> 1" using mr r by simp
  have "fl fa (real_of_int ?q + 1 / 10) \<le> ?a"
    by (rule rounding_mono [OF fa]) (use dq frac_lo in linarith)
  then have "fl fa (real_of_int ?q + 1 / 10) + ?b \<le> ?a + ?b" by simp
  then have "fl fa (fl fa (real_of_int ?q + 1 / 10) + ?b) \<le> fl fa (?a + ?b)"
    by (rule rounding_mono [OF fa])
  then have lo: "real_of_int ?q + 1 \<le> fl fa (?a + ?b)"
    using rounding_sum [OF fa q0 q31] by linarith
  have "?a \<le> fl fa (real_of_int (?q + 1))"
    by (rule rounding_mono [OF fa]) (use dq frac_hi in simp)
  moreover have "fl fa (real_of_int (?q + 1)) = real_of_int (?q + 1)"
    by (rule rounding_int [OF fa]) (use q0 q31 in simp)
  ultimately have a_hi: "?a \<le> real_of_int ?q + 1" by simp
  define C where "C = real_of_int ?q + 1 + 9 / 10 * (1 + 1 / 2 ^ 53)"
  have sum_hi: "?a + ?b \<le> C" unfolding C_def using a_hi nine_tenths(2) [OF fa] by linarith
  have C_lo: "1 / 16 \<le> C" unfolding C_def using q0 by simp
  have q31r: "real_of_int ?q \<le> 2 ^ 31" using q31 by (simp add: of_int_le_numeral_power_cancel_iff [symmetric] del: of_int_le_numeral_power_cancel_iff)
  have C_hi: "C \<le> 2 ^ 31 + 2" unfolding C_def using q31r by simp
  have "fl fa (?a + ?b) \<le> fl fa C" by (rule rounding_mono [OF fa sum_hi])
  also have "\<dots> \<le> C * (1 + 1 / 2 ^ 53)"
    by (rule rounding_upper [OF fa C_lo]) (use C_hi in simp)
  finally have y_hi: "fl fa (?a + ?b) \<le> C + C / 2 ^ 53" by (simp add: algebra_simps)
  have "C / 2 ^ 53 \<le> (2 ^ 31 + 2) / 2 ^ 53" using C_hi by (simp add: divide_right_mono)
  also have "\<dots> \<le> (1 / 100 :: real)" by simp
  finally have "C / 2 ^ 53 \<le> 1 / 100" .
  moreover have "C \<le> real_of_int ?q + 1 + 91 / 100" unfolding C_def by simp
  ultimately have hi: "fl fa (?a + ?b) < real_of_int ?q + 2" using y_hi by linarith
  show ?thesis using lo hi by linarith
qed

lemma roughen_floor_down:
  assumes fa: "rounding fa" and r: "0 < r" and d: "0 \<le> d" and d31: "d < 2 ^ 31"
    and m0: "d mod r \<noteq> 0" and down: "10 * (d mod r) < r"
  shows "\<lfloor>fl fa (fl fa (real_of_int d / real_of_int r) + fl fa (9 / 10))\<rfloor> = d div r"
proof -
  let ?q = "d div r" and ?m = "d mod r"
  let ?a = "fl fa (real_of_int d / real_of_int r)" and ?b = "fl fa (9 / 10)"
  define K where "K = real_of_int (10 * ?m + 1)"
  define Q where "Q = real_of_int (?q + 1)"
  define B where "B = real_of_int ?q + real_of_int ?m / K"
  define C where "C = Q - 1 / (10 * K)"
  have m: "0 < ?m" using r m0 by (simp add: less_le)
  have q0: "0 \<le> ?q" using r d by (simp add: pos_imp_zdiv_nonneg_iff)
  have qd: "?q \<le> d" using zdiv_mono2 [of d 1 r] r d by simp
  have K0: "0 < K" "1 \<le> K" unfolding K_def using m by simp_all
  have Q1: "1 \<le> Q" unfolding Q_def using q0 by simp
  have dq: "real_of_int d / real_of_int r = real_of_int ?q + real_of_int ?m / real_of_int r"
    by (rule div_mod_real [OF r])
  have Kr: "K \<le> real_of_int r" unfolding K_def using down by linarith
  have "real_of_int ?m / real_of_int r \<le> real_of_int ?m / K"
    using Kr K0 m by (intro divide_left_mono) simp_all
  then have dB: "real_of_int d / real_of_int r \<le> B" unfolding B_def using dq by linarith
  have BC: "B + 9 / 10 = C"
  proof -
    have "real_of_int ?m = (K - 1) / 10" unfolding K_def by simp
    then have "real_of_int ?m / K = 1 / 10 - 1 / (10 * K)" using K0 by (simp add: field_simps)
    then show ?thesis unfolding B_def C_def Q_def by simp
  qed
  have QK: "Q * K \<le> 2 ^ 35"
  proof -
    have "(?q + 1) * (10 * ?m + 1) \<le> 2 ^ 35" by (rule quotient_bound [OF r d d31 down])
    then have "real_of_int ((?q + 1) * (10 * ?m + 1)) \<le> real_of_int (2 ^ 35)"
      by (rule of_int_le_iff [THEN iffD2])
    then show ?thesis unfolding Q_def K_def by simp
  qed
  have Q35: "Q \<le> 2 ^ 35"
  proof -
    have "Q * 1 \<le> Q * K" using K0 Q1 by (intro mult_left_mono) simp_all
    then show ?thesis using QK by linarith
  qed
  have tenth: "1 / (10 * K) \<le> 1 / 10" using K0 by (simp add: field_simps)
  have C_lo: "9 / 10 \<le> C" unfolding C_def using Q1 tenth by linarith
  have C_hi: "C \<le> Q" unfolding C_def using K0 by simp
  have B_lo: "1 / 16 \<le> B"
  proof -
    have "K \<le> 11 * real_of_int ?m" unfolding K_def using m by simp
    then have "1 / 11 \<le> real_of_int ?m / K" using K0 by (simp add: field_simps)
    moreover have "0 \<le> real_of_int ?q" using q0 by simp
    ultimately show ?thesis unfolding B_def by linarith
  qed
  have B_hi: "B \<le> 2 ^ 53"
  proof -
    have "B \<le> C" using BC by linarith
    also have "\<dots> \<le> 2 ^ 35" using C_hi Q35 by linarith
    also have "\<dots> \<le> (2 ^ 53 :: real)" by simp
    finally show ?thesis .
  qed
  have "?a \<le> fl fa B" by (rule rounding_mono [OF fa dB])
  also have "\<dots> \<le> B * (1 + 1 / 2 ^ 53)" by (rule rounding_upper [OF fa B_lo B_hi])
  finally have a_hi: "?a \<le> B * (1 + 1 / 2 ^ 53)" .
  define E where "E = C * (1 + 1 / 2 ^ 53)"
  have "?a + ?b \<le> B * (1 + 1 / 2 ^ 53) + 9 / 10 * (1 + 1 / 2 ^ 53)"
    using a_hi nine_tenths(2) [OF fa] by linarith
  also have "\<dots> = E" unfolding E_def BC [symmetric] by (simp add: algebra_simps)
  finally have sum_hi: "?a + ?b \<le> E" .
  have E_lo: "1 / 16 \<le> E"
  proof -
    have "C * 1 \<le> C * (1 + 1 / 2 ^ 53)" using C_lo by (intro mult_left_mono) simp_all
    then show ?thesis unfolding E_def using C_lo by linarith
  qed
  have E_hi: "E \<le> 2 ^ 53"
  proof -
    have "C * (1 + 1 / 2 ^ 53) \<le> 2 ^ 35 * 2"
      using C_hi Q35 C_lo by (intro mult_mono) simp_all
    also have "\<dots> \<le> (2 ^ 53 :: real)" by simp
    finally show ?thesis unfolding E_def .
  qed
  have "fl fa (?a + ?b) \<le> fl fa E" by (rule rounding_mono [OF fa sum_hi])
  also have "\<dots> \<le> E * (1 + 1 / 2 ^ 53)" by (rule rounding_upper [OF fa E_lo E_hi])
  finally have y_hi: "fl fa (?a + ?b) \<le> C * (1 + 1 / 2 ^ 53) * (1 + 1 / 2 ^ 53)"
    unfolding E_def .
  have small: "30 * (1 / 2 ^ 53) * (Q * K) < 1"
  proof -
    have "30 * (1 / 2 ^ 53) * (Q * K) \<le> 30 * (1 / 2 ^ 53) * 2 ^ 35"
      using QK by (intro mult_left_mono) simp_all
    also have "\<dots> < (1::real)" by simp
    finally show ?thesis .
  qed
  have "C * (1 + 1 / 2 ^ 53) * (1 + 1 / 2 ^ 53) < Q"
    by (rule down_bound [OF eps_bounds K0(1) _ small C_def]) (use Q1 C_lo in linarith)+
  then have hi: "fl fa (?a + ?b) < real_of_int ?q + 1" using y_hi unfolding Q_def by simp
  have "fl fa (real_of_int ?q) \<le> ?a"
    by (rule rounding_mono [OF fa]) (use dq m r in simp)
  moreover have "fl fa (real_of_int ?q) = real_of_int ?q"
    by (rule rounding_int [OF fa]) (use q0 qd d31 in simp)
  ultimately have "real_of_int ?q \<le> ?a + ?b" using nine_tenths(1) [OF fa] by linarith
  then have "fl fa (real_of_int ?q) \<le> fl fa (?a + ?b)" by (rule rounding_mono [OF fa])
  then have lo: "real_of_int ?q \<le> fl fa (?a + ?b)"
    using \<open>fl fa (real_of_int ?q) = real_of_int ?q\<close> by simp
  show ?thesis using lo hi by linarith
qed

lemma roughen_roughened:
  assumes fa: "rounding fa" and r: "0 < r" and d: "0 \<le> d" and d31: "d < 2 ^ 31"
  shows "roughen fa d r = roughened d r"
proof (cases "d mod r = 0")
  case True
  then show ?thesis by (simp add: roughen_def roughened_def)
next
  case False
  let ?y = "fl fa (fl fa (real_of_int d / real_of_int r) + fl fa (9 / 10))"
  have q0: "0 \<le> d div r" using r d by (simp add: pos_imp_zdiv_nonneg_iff)
  have mul: "d div r * r = d - d mod r" by (simp add: algebra_simps minus_mod_eq_mult_div)
  show ?thesis
  proof (cases "r \<le> 10 * (d mod r)")
    case True
    have fl: "\<lfloor>?y\<rfloor> = d div r + 1" by (rule roughen_floor_up [OF fa r d d31 True])
    then have "0 \<le> ?y" using q0 by linarith
    then have "py_int ?y = d div r + 1" using fl by (simp add: py_int_nonneg)
    then have "roughen fa d r = (d div r + 1) * r" using False by (simp add: roughen_def)
    also have "\<dots> = d - d mod r + r" using mul by (simp add: algebra_simps)
    finally show ?thesis using False True by (simp add: roughened_def round_up_to_multiple_def)
  next
    case down: False
    then have lt: "10 * (d mod r) < r" by simp
    have fl: "\<lfloor>?y\<rfloor> = d div r" by (rule roughen_floor_down [OF fa r d d31 False lt])
    then have "0 \<le> ?y" using q0 by linarith
    then have "py_int ?y = d div r" using fl by (simp add: py_int_nonneg)
    then have "roughen fa d r = d div r * r" using False by (simp add: roughen_def)
    then show ?thesis using False down mul by (simp add: roughened_def)
  qed
qed

lemma roughened_bounds:
  assumes r: "0 < r" and d: "0 \<le> d"
  shows "0 \<le> roughened d r" and "roughened d r < d + r" and "r dvd roughened d r"
    and "1 \<le> roughened d r \<longleftrightarrow> 1 \<le> d \<and> r \<le> 10 * d"
proof -
  let ?m = "d mod r"
  have m: "0 \<le> ?m" "?m < r" using r by simp_all
  have le: "?m \<le> d" using d r by (simp add: zmod_le_nonneg_dividend)
  have dv: "r dvd d - ?m" by (simp add: minus_mod_eq_mult_div)
  have c: "(?m = 0 \<and> roughened d r = d)
         \<or> (?m \<noteq> 0 \<and> r \<le> 10 * ?m \<and> roughened d r = d - ?m + r)
         \<or> (?m \<noteq> 0 \<and> 10 * ?m < r \<and> roughened d r = d - ?m)"
    by (auto simp: roughened_def round_up_to_multiple_def)
  show "0 \<le> roughened d r" using c m le d by (elim disjE conjE) linarith+
  show "roughened d r < d + r" using c m r by (elim disjE conjE) linarith+
  show "r dvd roughened d r"
    using c
  proof (elim disjE conjE)
    assume "?m = 0" "roughened d r = d"
    then show ?thesis by (simp add: mod_eq_0_iff_dvd)
  next
    assume "roughened d r = d - ?m + r"
    then show ?thesis using dv by simp
  next
    assume "roughened d r = d - ?m"
    then show ?thesis using dv by simp
  qed
  have small: "d < r \<Longrightarrow> ?m = d" using d by simp
  have big: "r \<le> d \<Longrightarrow> r \<le> d - ?m"
  proof -
    assume rd: "r \<le> d"
    have "1 \<le> d div r" using rd r by (simp add: pos_imp_zdiv_pos_iff int_one_le_iff_zero_less)
    then have "1 * r \<le> d div r * r" using r by (intro mult_right_mono) simp_all
    moreover have "d div r * r = d - d mod r"
      by (simp add: algebra_simps minus_mod_eq_mult_div)
    ultimately show ?thesis by linarith
  qed
  show "1 \<le> roughened d r \<longleftrightarrow> 1 \<le> d \<and> r \<le> 10 * d"
  proof (cases "d < r")
    case True
    have md: "?m = d" using small [OF True] .
    show ?thesis using c r d unfolding md by (elim disjE conjE) linarith+
  next
    case False
    then have rd: "r \<le> d" by simp
    have "r \<le> d - ?m" using big [OF rd] .
    then show ?thesis using c r rd m by (elim disjE conjE) linarith+
  qed
qed

lemma scaled_bounds:
  assumes fa: "rounding fa" and a: "0 < a" and a31: "a < 2 ^ 31" and s0: "0 \<le> s" and s1: "s < 1"
  shows "0 \<le> py_int (fl fa (real_of_int a * s))" and "py_int (fl fa (real_of_int a * s)) \<le> a"
proof -
  let ?x = "fl fa (real_of_int a * s)"
  have "fl fa 0 \<le> ?x" by (rule rounding_mono [OF fa]) (use a s0 in simp)
  then have nn: "0 \<le> ?x" by (simp add: fl_zero [OF fa])
  have "real_of_int a * s \<le> real_of_int a * 1" using a s1 by (intro mult_left_mono) simp_all
  then have "?x \<le> fl fa (real_of_int a)" using rounding_mono [OF fa] by simp
  moreover have "fl fa (real_of_int a) = real_of_int a"
    by (rule rounding_int [OF fa]) (use a a31 in simp)
  ultimately have "?x \<le> real_of_int a" by simp
  then have le: "\<lfloor>?x\<rfloor> \<le> a" by (simp add: floor_le_iff)
  show "0 \<le> py_int ?x" using nn by (simp add: py_int_nonneg)
  show "py_int ?x \<le> a" using nn le by (simp add: py_int_nonneg)
qed

lemma width_range: "- (2 ^ 31) \<le> width c" "width c < 2 ^ 31"
  using sint_ge [of "wd c"] sint_lt [of "wd c"] by (simp_all add: width_def)

lemma height_range: "- (2 ^ 31) \<le> height c" "height c < 2 ^ 31"
  using sint_ge [of "ht c"] sint_lt [of "ht c"] by (simp_all add: height_def)



lemma calculateDEMSize_scaled:
  assumes fa: "rounding fa" and w: "0 < width c" and h: "0 < height c"
    and lvl: "real_of_int (100 * L * (100 * L)) / real_of_int (width c * height c) < float_overflow"
  shows "\<exists>w1 h1. 0 \<le> w1 \<and> w1 \<le> width c \<and> 0 \<le> h1 \<and> h1 \<le> height c
           \<and> (width c * height c \<le> 100 * L * (100 * L) \<longrightarrow> w1 = width c \<and> h1 = height c)
           \<and> (\<forall>r. calculateDEMSize fa c L r =
                  QSize_init ((if r \<noteq> 0 then roughen fa w1 r else w1) + 1)
                             ((if r \<noteq> 0 then roughen fa h1 r else h1) + 1))"
proof -
  define x where "x = real_of_int (100 * L * (100 * L)) / real_of_int (width c * height c)"
  define s where "s = pow_half fa (fl fa x)"
  define w1 where "w1 = (if s < 1 then py_int (fl fa (real_of_int (width c) * s)) else width c)"
  define h1 where "h1 = (if s < 1 then py_int (fl fa (real_of_int (height c) * s)) else height c)"
  have wh: "width c * height c \<noteq> 0" using w h by simp
  have whpos: "0 < real_of_int (width c * height c)" using w h by simp
  have sq: "0 \<le> real_of_int (100 * L * (100 * L))" by simp
  have x0: "0 \<le> x" unfolding x_def using sq whpos by (rule divide_nonneg_pos)
  have ovf: "\<not> float_overflow \<le> \<bar>x\<bar>" using lvl x0 unfolding x_def by linarith
  have "fl fa 0 \<le> fl fa x" by (rule rounding_mono [OF fa x0])
  then have q0: "0 \<le> fl fa x" by (simp add: fl_zero [OF fa])
  then have nneg: "\<not> fl fa x < 0" by simp
  have s0: "0 \<le> s" unfolding s_def by (rule rounding_pow_half(1) [OF fa q0])
  have res: "calculateDEMSize fa c L r =
               QSize_init ((if r \<noteq> 0 then roughen fa w1 r else w1) + 1)
                          ((if r \<noteq> 0 then roughen fa h1 r else h1) + 1)" for r
    unfolding calculateDEMSize_def Let_def x_def [symmetric] s_def [symmetric]
      w1_def [symmetric] h1_def [symmetric]
    using wh ovf nneg by (simp only: if_False if_not_P)
  have w1b: "0 \<le> w1" "w1 \<le> width c"
    using scaled_bounds [OF fa w width_range(2) s0] w by (auto simp: w1_def)
  have h1b: "0 \<le> h1" "h1 \<le> height c"
    using scaled_bounds [OF fa h height_range(2) s0] h by (auto simp: h1_def)
  have same: "width c * height c \<le> 100 * L * (100 * L) \<longrightarrow> w1 = width c \<and> h1 = height c"
  proof
    assume le: "width c * height c \<le> 100 * L * (100 * L)"
    then have "real_of_int (width c * height c) \<le> real_of_int (100 * L * (100 * L))"
      by (rule of_int_le_iff [THEN iffD2])
    then have "1 \<le> x" unfolding x_def using whpos by (simp add: le_divide_eq)
    then have "fl fa 1 \<le> fl fa x" by (rule rounding_mono [OF fa])
    then have "1 \<le> fl fa x" by (simp add: fl_one [OF fa])
    then have "1 \<le> s" unfolding s_def by (rule rounding_pow_half(2) [OF fa])
    then show "w1 = width c \<and> h1 = height c" by (simp add: w1_def h1_def)
  qed
  show ?thesis using w1b h1b same res by blast
qed

lemma calculateDEMSize_grid:
  assumes fa: "rounding fa" and w: "0 < width c" and h: "0 < height c"
    and lvl: "real_of_int (100 * L * (100 * L)) / real_of_int (width c * height c) < float_overflow"
  shows "\<exists>w1 h1. 0 \<le> w1 \<and> w1 \<le> width c \<and> 0 \<le> h1 \<and> h1 \<le> height c
           \<and> (width c * height c \<le> 100 * L * (100 * L) \<longrightarrow> w1 = width c \<and> h1 = height c)
           \<and> calculateDEMSize fa c L 0 = QSize_init (w1 + 1) (h1 + 1)
           \<and> (\<forall>r. 0 < r \<longrightarrow> calculateDEMSize fa c L r =
                  QSize_init (roughened w1 r + 1) (roughened h1 r + 1))"
proof -
  obtain w1 h1 where b: "0 \<le> w1" "w1 \<le> width c" "0 \<le> h1" "h1 \<le> height c"
    and same: "width c * height c \<le> 100 * L * (100 * L) \<longrightarrow> w1 = width c \<and> h1 = height c"
    and res: "\<And>r. calculateDEMSize fa c L r =
                  QSize_init ((if r \<noteq> 0 then roughen fa w1 r else w1) + 1)
                             ((if r \<noteq> 0 then roughen fa h1 r else h1) + 1)"
    using calculateDEMSize_scaled [OF fa w h lvl] by blast
  have w31: "w1 < 2 ^ 31" using b(2) width_range(2) [of c] by linarith
  have h31: "h1 < 2 ^ 31" using b(4) height_range(2) [of c] by linarith
  have r0: "calculateDEMSize fa c L 0 = QSize_init (w1 + 1) (h1 + 1)"
    using res [of 0] by simp
  have rp: "calculateDEMSize fa c L r = QSize_init (roughened w1 r + 1) (roughened h1 r + 1)"
    if "0 < r" for r
    using res [of r] that roughen_roughened [OF fa that b(1) w31]
      roughen_roughened [OF fa that b(3) h31] by simp
  show ?thesis using b same r0 rp by blast
qed





text \<open>
  Claim C3, as the specification states it, fails: the canvas 65 x 33 at level 1 is not
  scaled down, and with roughening 16 the dimensions 65 and 33, which are not multiples of
  16, become 64 and 32, the multiples below them, not 80 and 48: \<^verbatim>\<open>int(65 / 16 + 0.9)\<close> is
  \<^verbatim>\<open>int(4.9625)\<close>, that is 4.
\<close>

theorem calculateDEMSize_roughening_counterexample:
  "calculateDEMSize exact_arith (QSize 65 33) 1 0 = Inr (QSize 66 34)
   \<and> calculateDEMSize exact_arith (QSize 65 33) 1 16 = Inr (QSize 65 33)
   \<and> round_up_to_multiple 65 16 = 80 \<and> round_up_to_multiple 33 16 = 48"
proof (intro conjI)
  show "calculateDEMSize exact_arith (QSize 65 33) 1 0 = Inr (QSize 66 34)"
    by (simp add: calculateDEMSize_def exact_arith_def float_overflow_def width_def height_def
        QSize_init_def py_int_def Let_def)
  show "calculateDEMSize exact_arith (QSize 65 33) 1 16 = Inr (QSize 65 33)"
    by (simp add: calculateDEMSize_def exact_arith_def float_overflow_def width_def height_def
        QSize_init_def roughen_def py_int_def Let_def)
  show "round_up_to_multiple 65 16 = 80" by (simp add: round_up_to_multiple_def)
  show "round_up_to_multiple 33 16 = 48" by (simp add: round_up_to_multiple_def)
qed

text \<open>
  Claim C3, amended. Take a canvas of positive width and height, a level for which the
  quotient \<open>(100 * level)\<^sup>2 / (width * height)\<close> is in the range of the floats, and a
  positive roughening \<open>r\<close>. Let \<open>w1\<close> and \<open>h1\<close> be the scaled dimensions, those of the
  size \<open>(w1 + 1, h1 + 1)\<close> that \<^verbatim>\<open>calculateDEMSize\<close> builds without roughening. With the
  roughening it builds the size \<open>(roughened w1 r + 1, roughened h1 r + 1)\<close>, where
  \<^const>\<open>roughened\<close> leaves a multiple of \<open>r\<close> unchanged, raises a dimension whose
  remainder is at least a tenth of \<open>r\<close> to the next multiple, and lowers a dimension
  whose remainder is less than a tenth of \<open>r\<close> to the multiple below it. The result is a
  multiple of \<open>r\<close> less than \<open>r\<close> away from the scaled dimension. Building the size
  raises OverflowError when a dimension does not fit 32 bits.
\<close>

theorem calculateDEMSize_roughening:
  assumes fa: "rounding fa" and w: "0 < width c" and h: "0 < height c"
    and lvl: "real_of_int (100 * L * (100 * L)) / real_of_int (width c * height c) < float_overflow"
    and r: "0 < r"
  shows "\<exists>w1 h1. 0 \<le> w1 \<and> w1 \<le> width c \<and> 0 \<le> h1 \<and> h1 \<le> height c
           \<and> calculateDEMSize fa c L 0 = QSize_init (w1 + 1) (h1 + 1)
           \<and> calculateDEMSize fa c L r = QSize_init (roughened w1 r + 1) (roughened h1 r + 1)
           \<and> r dvd roughened w1 r \<and> r dvd roughened h1 r
           \<and> \<bar>roughened w1 r - w1\<bar> < r \<and> \<bar>roughened h1 r - h1\<bar> < r"
proof -
  obtain w1 h1 where b: "0 \<le> w1" "w1 \<le> width c" "0 \<le> h1" "h1 \<le> height c"
    and r0: "calculateDEMSize fa c L 0 = QSize_init (w1 + 1) (h1 + 1)"
    and rp: "\<And>r. 0 < r \<Longrightarrow> calculateDEMSize fa c L r =
                  QSize_init (roughened w1 r + 1) (roughened h1 r + 1)"
    using calculateDEMSize_grid [OF fa w h lvl] by blast
  have near: "\<bar>roughened d r - d\<bar> < r" for d
  proof -
    have m: "0 \<le> d mod r" "d mod r < r" using r by simp_all
    have "roughened d r = d \<or> roughened d r = d - d mod r + r \<and> d mod r \<noteq> 0
        \<or> roughened d r = d - d mod r"
      by (auto simp: roughened_def round_up_to_multiple_def)
    then show ?thesis using m r by (elim disjE conjE) linarith+
  qed
  show ?thesis
    using b r0 rp [OF r] roughened_bounds(3) [OF r b(1)] roughened_bounds(3) [OF r b(3)]
      near [of w1] near [of h1]
    by blast
qed

theorem calculateDEMSize_roughening_witness:
  "rounding exact_arith \<and> 0 < width (QSize 100 75) \<and> 0 < height (QSize 100 75)
   \<and> real_of_int (100 * 1 * (100 * 1))
        / real_of_int (width (QSize 100 75) * height (QSize 100 75)) < float_overflow
   \<and> (0::int) < 8
   \<and> calculateDEMSize exact_arith (QSize 100 75) 1 0 = Inr (QSize 101 76)
   \<and> calculateDEMSize exact_arith (QSize 100 75) 1 8 = Inr (QSize 105 81)
   \<and> roughened 100 8 = 104 \<and> roughened 75 8 = 80 \<and> roughened 96 8 = 96
   \<and> roughened 65 16 = 64
   \<and> (\<exists>w1 h1. calculateDEMSize exact_arith (QSize 100 75) 1 8
                 = QSize_init (roughened w1 8 + 1) (roughened h1 8 + 1))"
proof -
  let ?c = "QSize 100 75"
  have w: "0 < width ?c" and h: "0 < height ?c" by (simp_all add: width_def height_def)
  have lvl: "real_of_int (100 * 1 * (100 * 1)) / real_of_int (width ?c * height ?c)
               < float_overflow"
    by (simp add: width_def height_def float_overflow_def)
  have r: "(0::int) < 8" by simp
  have ev0: "calculateDEMSize exact_arith ?c 1 0 = Inr (QSize 101 76)"
    by (simp add: calculateDEMSize_def exact_arith_def float_overflow_def width_def height_def
        QSize_init_def py_int_def Let_def)
  have ev: "calculateDEMSize exact_arith ?c 1 8 = Inr (QSize 105 81)"
    by (simp add: calculateDEMSize_def exact_arith_def float_overflow_def width_def height_def
        QSize_init_def roughen_def py_int_def Let_def)
  have g: "roughened 100 8 = 104" "roughened 75 8 = 80" "roughened 96 8 = 96"
    "roughened 65 16 = 64"
    by (simp_all add: roughened_def round_up_to_multiple_def)
  obtain w1 h1 where
    "calculateDEMSize exact_arith ?c 1 8 = QSize_init (roughened w1 8 + 1) (roughened h1 8 + 1)"
    using calculateDEMSize_roughening [OF rounding_exact_arith w h lvl r]
    by (elim exE conjE) (rule that, assumption)
  then have ex: "\<exists>w1 h1. calculateDEMSize exact_arith ?c 1 8
                 = QSize_init (roughened w1 8 + 1) (roughened h1 8 + 1)" by blast
  show ?thesis by (intro conjI rounding_exact_arith w h lvl r ev0 ev g ex)
qed

end
